theory Spec2Isabelle
  imports Main "HOL-Library.Word"
begin

section \<open>Values of the Go runtime and of the Kubernetes API types\<close>

text \<open>
  A Go \<open>error\<close> is modelled by the text its \<open>Error()\<close> method returns; \<open>nil\<close> is
  \<open>None\<close> of \<open>error option\<close>.
\<close>

type_synonym error = string

subsection \<open>Decimal formatting: \<open>strconv.FormatInt(v, 10)\<close> and the verb \<open>%d\<close>\<close>

definition digit_char :: "nat \<Rightarrow> char" where
  "digit_char d = ''0123456789'' ! d"

fun digits10 :: "nat \<Rightarrow> string" where
  "digits10 n = (if n < 10 then [digit_char n] else digits10 (n div 10) @ [digit_char (n mod 10)])"

declare digits10.simps [simp del]

definition FormatInt :: "int \<Rightarrow> string" where
  "FormatInt v = (if v < 0 then CHR ''-'' # digits10 (nat (- v)) else digits10 (nat v))"

subsection \<open>The binary64 operations of \<open>int64(float64(v) * c)\<close>\<close>

text \<open>
  A finite binary64 value is modelled by a pair \<open>(m, e)\<close> of integers that denotes
  \<open>m * 2 ^ e\<close>. Both the conversion of an integer to \<open>float64\<close> and the product of two
  \<open>float64\<close> values round the exact result to 53 significant bits, to nearest and ties
  to even. \<open>bitlen n\<close> is the number of binary digits of \<open>n\<close>. The magnitudes met here
  are \<open>0\<close> or between \<open>1/4\<close> and \<open>2 ^ 64\<close>, so neither subnormal numbers nor infinities
  arise.
\<close>

type_synonym float64 = "int \<times> int"

fun bitlen :: "nat \<Rightarrow> nat" where
  "bitlen n = (if n = 0 then 0 else Suc (bitlen (n div 2)))"

declare bitlen.simps [simp del]

text \<open>\<open>v / 2 ^ sh\<close> rounded to the nearest integer, a tie to the even one.\<close>

definition rshift_half_even :: "int \<Rightarrow> nat \<Rightarrow> int" where
  "rshift_half_even v sh =
     (let q = v div 2 ^ sh; r = v mod 2 ^ sh
      in if 2 * r < 2 ^ sh then q
         else if 2 ^ sh < 2 * r then q + 1
         else if even q then q else q + 1)"

definition float64_round :: "int \<times> int \<Rightarrow> float64" where
  "float64_round x =
     (case x of (m, e) \<Rightarrow>
        let n = bitlen (nat \<bar>m\<bar>)
        in if n \<le> 53 then (m, e)
           else (rshift_half_even m (n - 53), e + int (n - 53)))"

definition float64_of_int :: "int \<Rightarrow> float64" where
  "float64_of_int v = float64_round (v, 0)"

definition float64_mul :: "float64 \<Rightarrow> float64 \<Rightarrow> float64" where
  "float64_mul a b = float64_round (fst a * fst b, snd a + snd b)"

text \<open>The constants \<open>0.5\<close> and \<open>0.75\<close>, both exact in binary64.\<close>

definition float_0_5 :: float64 where "float_0_5 = (1, - 1)"
definition float_0_75 :: float64 where "float_0_75 = (3, - 2)"

text \<open>Conversion of a \<open>float64\<close> to \<open>int64\<close> discards the fraction (towards zero).\<close>

definition int64_of_float :: "float64 \<Rightarrow> int" where
  "int64_of_float x =
     (case x of (m, e) \<Rightarrow>
        if 0 \<le> e then m * 2 ^ nat e
        else if m < 0 then - ((- m) div 2 ^ nat (- e))
        else m div 2 ^ nat (- e))"

subsection \<open>Resource quantities\<close>

text \<open>
  The code reads a \<open>resource.Quantity\<close> through its method \<open>Value()\<close> only, which
  returns an \<open>int64\<close>. A quantity is modelled by that \<open>int64\<close>, a 64-bit word read as
  signed: how the library gets from the declared amount to it (rounding up to a whole
  number, and what it does with an amount beyond the range of \<open>int64\<close>) is not part of
  the model. \<open>resource.MustParse\<close> is applied to three literals only; each is given by
  its value.
\<close>

type_synonym Quantity = "64 word"

definition Value :: "Quantity \<Rightarrow> int" where
  "Value q = sint q"

definition KB :: int where "KB = 2 ^ 10"
definition MB :: int where "MB = 2 ^ 20"
definition GB :: int where "GB = 2 ^ 30"

text \<open>
  \<open>resource.MustParse("200m")\<close>, whose value is the fifth of a unit rounded up, and
  \<open>resource.MustParse("1Gi")\<close> (memory and storage).
\<close>

definition resourceRequestCPU :: Quantity where "resourceRequestCPU = 1"
definition resourceRequestMemory :: Quantity where "resourceRequestMemory = 2 ^ 30"
definition resourceStorage :: Quantity where "resourceStorage = 2 ^ 30"

type_synonym ResourceList = "string \<rightharpoonup> Quantity"

definition ResourceCPU :: string where "ResourceCPU = ''cpu''"
definition ResourceMemory :: string where "ResourceMemory = ''memory''"
definition ResourceStorage :: string where "ResourceStorage = ''storage''"

record ResourceRequirements =
  Limits :: ResourceList
  Requests :: ResourceList

text \<open>
  \<open>ResourceList.Memory()\<close> belongs to the Kubernetes API library. For a list that holds
  the memory key it returns a pointer to that quantity. What it returns for a list
  without the key is the parameter \<open>nomem\<close> of the model (\<open>None\<close> for a nil pointer), so
  that nothing proved below depends on it.
\<close>

definition Memory :: "Quantity option \<Rightarrow> ResourceList \<Rightarrow> Quantity option" where
  "Memory nomem rl = (case rl ResourceMemory of Some q \<Rightarrow> Some q | None \<Rightarrow> nomem)"

section \<open>The cluster definition\<close>

text \<open>
  The struct declarations of \<open>MysqlCluster\<close>, \<open>ClusterSpec\<close>, \<open>PodSpec\<close>,
  \<open>VolumeSpec\<close> and \<open>Options\<close> are outside the files at hand; the records hold the
  fields that \<open>cluster.go\<close> reads or writes. Two structs with a field of the same name
  get a prefix on one of them.
\<close>

record Options =
  MysqlImageTag :: string
  opt_ImagePullPolicy :: string
  OrchestratorUri :: string

record LabelSelector =
  MatchLabels :: "string \<rightharpoonup> string"

record PodAffinityTerm =
  LabelSelector :: "LabelSelector option"
  TopologyKey :: string

record WeightedPodAffinityTerm =
  Weight :: int
  PodAffinityTerm :: PodAffinityTerm

record PodAntiAffinity =
  RequiredDuringSchedulingIgnoredDuringExecution :: "PodAffinityTerm list"
  PreferredDuringSchedulingIgnoredDuringExecution :: "WeightedPodAffinityTerm list"

record Affinity =
  PodAntiAffinity :: "PodAntiAffinity option"

record PodSpec =
  ImagePullPolicy :: string
  Resources :: ResourceRequirements
  Affinity :: Affinity

record VolumeSpec =
  AccessModes :: "string list"
  vs_Resources :: ResourceRequirements

text \<open>
  \<open>MysqlConf\<close> is a Go \<open>map[string]string\<close>. The code reads its length and its
  keys only, so a nil map and an empty map are the same value here.
\<close>

type_synonym MysqlConf = "string \<rightharpoonup> string"

record ClusterSpec =
  SecretName :: string
  MysqlVersion :: string
  PodSpec :: PodSpec
  MysqlConf :: MysqlConf
  VolumeSpec :: VolumeSpec

record ClusterStatus =
  ReadyNodes :: int

record MysqlCluster =
  Name :: string
  Namespace :: string
  Spec :: ClusterSpec
  Status :: ClusterStatus

definition ReadWriteOnce :: string where "ReadWriteOnce = ''ReadWriteOnce''"

section \<open>The defaulting engine\<close>

definition GetLabels :: "MysqlCluster \<Rightarrow> (string \<rightharpoonup> string)" where
  "GetLabels c = [''app'' \<mapsto> ''mysql-operator'', ''mysql_cluster'' \<mapsto> Name c]"

text \<open>
  Each \<open>UpdateDefaults\<close> mutates its receiver and returns an error; the model returns
  the error together with the receiver as the call leaves it. The struct literals
  assigned to \<open>Resources\<close> name \<open>Requests\<close> only, so the other field of
  \<open>ResourceRequirements\<close>, \<open>Limits\<close>, gets its zero value, the empty list; likewise
  for the required terms of the anti-affinity.
\<close>

definition PodSpec_UpdateDefaults ::
  "Options \<Rightarrow> MysqlCluster \<Rightarrow> PodSpec \<Rightarrow> error option \<times> PodSpec" where
  "PodSpec_UpdateDefaults opt cluster ps =
     (let ps1 = (if length (ImagePullPolicy ps) = 0
                 then ps\<lparr>ImagePullPolicy := opt_ImagePullPolicy opt\<rparr> else ps);
          ps2 = (if Requests (Resources ps1) = Map.empty
                 then ps1\<lparr>Resources :=
                        \<lparr>Limits = Map.empty,
                         Requests = [ResourceCPU \<mapsto> resourceRequestCPU,
                                     ResourceMemory \<mapsto> resourceRequestMemory]\<rparr>\<rparr>
                 else ps1);
          ps3 = (if PodAntiAffinity (Affinity ps2) = None
                 then ps2\<lparr>Affinity := (Affinity ps2)\<lparr>PodAntiAffinity := Some
                        \<lparr>RequiredDuringSchedulingIgnoredDuringExecution = [],
                         PreferredDuringSchedulingIgnoredDuringExecution =
                           [\<lparr>Weight = 100,
                             PodAffinityTerm =
                               \<lparr>LabelSelector = Some \<lparr>MatchLabels = GetLabels cluster\<rparr>,
                                TopologyKey = ''kubernetes.io/hostname''\<rparr>\<rparr>]\<rparr>\<rparr>\<rparr>
                 else ps2)
      in (None, ps3))"

definition VolumeSpec_UpdateDefaults :: "VolumeSpec \<Rightarrow> error option \<times> VolumeSpec" where
  "VolumeSpec_UpdateDefaults vs =
     (let vs1 = (if length (AccessModes vs) = 0
                 then vs\<lparr>AccessModes := [ReadWriteOnce]\<rparr> else vs);
          vs2 = (if Requests (vs_Resources vs1) = Map.empty
                 then vs1\<lparr>vs_Resources :=
                        \<lparr>Limits = Map.empty,
                         Requests = [ResourceStorage \<mapsto> resourceStorage]\<rparr>\<rparr>
                 else vs1)
      in (None, vs2))"

text \<open>The two sizing rules, each the body of its \<open>if mem != nil\<close> block.\<close>

definition bufferSize :: "Quantity \<Rightarrow> int" where
  "bufferSize mem =
     (if Value mem < GB then 128 * MB
      else if Value mem \<le> 4 * GB
        then int64_of_float (float64_mul (float64_of_int (Value mem)) float_0_5)
      else int64_of_float (float64_mul (float64_of_int (Value mem)) float_0_75))"

definition logFileSize :: "Quantity \<Rightarrow> int" where
  "logFileSize mem =
     (if Value mem < GB then 48 * MB
      else if Value mem \<le> 4 * GB then 128 * MB
      else if Value mem \<le> 8 * GB then 512 * GB
      else if Value mem \<le> 16 * GB then 1 * GB
      else 2 * GB)"

text \<open>The block that sets \<open>innodb-buffer-pool-size\<close> if not set, and its twin for
  \<open>innodb-log-file-size\<close>.\<close>

definition default_buffer_pool_size :: "Quantity option \<Rightarrow> ClusterSpec \<Rightarrow> ClusterSpec" where
  "default_buffer_pool_size nomem c =
     (case MysqlConf c ''innodb-buffer-pool-size'' of
        Some v \<Rightarrow> c
      | None \<Rightarrow>
         (case Memory nomem (Requests (Resources (PodSpec c))) of
            None \<Rightarrow> c
          | Some mem \<Rightarrow>
              c\<lparr>MysqlConf := (MysqlConf c)
                   (''innodb-buffer-pool-size'' \<mapsto> FormatInt (bufferSize mem))\<rparr>))"

definition default_log_file_size :: "Quantity option \<Rightarrow> ClusterSpec \<Rightarrow> ClusterSpec" where
  "default_log_file_size nomem c =
     (case MysqlConf c ''innodb-log-file-size'' of
        Some v \<Rightarrow> c
      | None \<Rightarrow>
         (case Memory nomem (Requests (Resources (PodSpec c))) of
            None \<Rightarrow> c
          | Some mem \<Rightarrow>
              c\<lparr>MysqlConf := (MysqlConf c)
                   (''innodb-log-file-size'' \<mapsto> FormatInt (logFileSize mem))\<rparr>))"

definition ClusterSpec_UpdateDefaults ::
  "Quantity option \<Rightarrow> Options \<Rightarrow> MysqlCluster \<Rightarrow> ClusterSpec \<Rightarrow> error option \<times> ClusterSpec" where
  "ClusterSpec_UpdateDefaults nomem opt cluster c =
     (let c1 = (if length (MysqlVersion c) = 0 then c\<lparr>MysqlVersion := MysqlImageTag opt\<rparr> else c);
          (err, ps) = PodSpec_UpdateDefaults opt cluster (PodSpec c1);
          c2 = c1\<lparr>PodSpec := ps\<rparr>
      in case err of
           Some e \<Rightarrow> (Some e, c2)
         | None \<Rightarrow>
            (let c3 = (if MysqlConf c2 = Map.empty then c2\<lparr>MysqlConf := Map.empty\<rparr> else c2);
                 c4 = default_buffer_pool_size nomem c3;
                 c5 = default_log_file_size nomem c4;
                 (err', vs) = VolumeSpec_UpdateDefaults (VolumeSpec c5)
             in (err', c5\<lparr>VolumeSpec := vs\<rparr>)))"

text \<open>
  \<open>MysqlCluster.UpdateDefaults\<close> passes the cluster itself as the second argument; the
  callee reads only its name from it, which no step writes.
\<close>

definition UpdateDefaults ::
  "Quantity option \<Rightarrow> Options \<Rightarrow> MysqlCluster \<Rightarrow> error option \<times> MysqlCluster" where
  "UpdateDefaults nomem opt c =
     (let (err, s) = ClusterSpec_UpdateDefaults nomem opt c (Spec c) in (err, c\<lparr>Spec := s\<rparr>))"

section \<open>Resource names and member hostnames\<close>

type_synonym ResourceName = string

definition HeadlessSVC :: ResourceName where "HeadlessSVC = ''headless''"
definition StatefulSet :: ResourceName where "StatefulSet = ''mysql''"
definition ConfigMap :: ResourceName where "ConfigMap = ''config-files''"
definition BackupCronJob :: ResourceName where "BackupCronJob = ''backup-cron''"

definition GetNameForResource :: "ResourceName \<Rightarrow> string \<Rightarrow> string" where
  "GetNameForResource name clusterName = clusterName @ ''-mysql''"

text \<open>The method of the same name on \<open>MysqlCluster\<close>, with its \<open>switch\<close>.\<close>

definition MysqlCluster_GetNameForResource :: "MysqlCluster \<Rightarrow> ResourceName \<Rightarrow> string" where
  "MysqlCluster_GetNameForResource c name =
     (if name = HeadlessSVC \<or> name = StatefulSet \<or> name = ConfigMap \<or> name = BackupCronJob
      then GetNameForResource name (Name c)
      else GetNameForResource name (Name c))"

definition GetPodHostName :: "MysqlCluster \<Rightarrow> int \<Rightarrow> string" where
  "GetPodHostName c p =
     (let pod = MysqlCluster_GetNameForResource c StatefulSet @ ''-'' @ FormatInt p
      in pod @ ''.'' @ MysqlCluster_GetNameForResource c HeadlessSVC)"

section \<open>The topology authority\<close>

text \<open>
  The orchestrator client lives in another package and answers from a remote service.
  A client is a record of its three operations: \<open>Discover\<close> acts on the world outside
  the process, of type \<open>'w\<close>; the two queries are given by the answers they return at
  the time of the call. \<open>orc.NewFromUri\<close> is the parameter \<open>NewFromUri\<close> of the
  functions below. A query that returns no error is taken to return an instance.
\<close>

record NullInt64 =
  Int64 :: int
  Valid :: bool

record InstanceKey =
  Hostname :: string

record Instance =
  Key :: InstanceKey
  SecondsBehindMaster :: NullInt64

record 'w orc_client =
  Discover :: "string \<Rightarrow> int \<Rightarrow> 'w \<Rightarrow> error option \<times> 'w"
  Master :: "string \<Rightarrow> error + Instance"
  ClusterOSCReplicas :: "string \<Rightarrow> error + Instance list"

text \<open>
  \<open>GetOrcUri\<close> reads the package-level variable \<open>opt\<close>, set once from
  \<open>options.GetOptions()\<close>; it is the first argument here.
\<close>

definition GetOrcUri :: "Options \<Rightarrow> ClusterSpec \<Rightarrow> string" where
  "GetOrcUri opt c = OrchestratorUri opt"

subsection \<open>The topology resolver\<close>

text \<open>Calls of \<open>glog\<close> write to the log only and are left out throughout.\<close>

definition GetMasterHost :: "Options \<Rightarrow> (string \<Rightarrow> 'w orc_client) \<Rightarrow> MysqlCluster \<Rightarrow> string" where
  "GetMasterHost opt NewFromUri c =
     (let masterHost = GetPodHostName c 0
      in if length (GetOrcUri opt (Spec c)) \<noteq> 0
         then (let client = NewFromUri (GetOrcUri opt (Spec c));
                   orcClusterName = Name c @ ''.'' @ Namespace c
               in case Master client orcClusterName of
                    Inr inst \<Rightarrow> Hostname (Key inst)
                  | Inl err \<Rightarrow> masterHost)
         else masterHost)"

text \<open>The \<open>range\<close> loop over the replicas, \<open>host\<close> being the variable it assigns.\<close>

fun replicas_loop :: "Instance list \<Rightarrow> string \<Rightarrow> string" where
  "replicas_loop [] host = host"
| "replicas_loop (r # rs) host =
     replicas_loop rs
       (if Valid (SecondsBehindMaster r) \<and> Int64 (SecondsBehindMaster r) \<le> 5
        then Hostname (Key r) else host)"

definition GetHealtySlaveHost ::
  "Options \<Rightarrow> (string \<Rightarrow> 'w orc_client) \<Rightarrow> MysqlCluster \<Rightarrow> string" where
  "GetHealtySlaveHost opt NewFromUri c =
     (if ReadyNodes (Status c) < 1 then GetPodHostName c 0
      else (let host = GetPodHostName c (ReadyNodes (Status c) - 1)
            in if length (GetOrcUri opt (Spec c)) \<noteq> 0
               then (let client = NewFromUri (GetOrcUri opt (Spec c))
                     in case ClusterOSCReplicas client (Name c) of
                          Inl err \<Rightarrow> host
                        | Inr replicas \<Rightarrow> replicas_loop replicas host)
               else host))"

section \<open>The reconciliation engine\<close>

text \<open>
  The event types and reasons are constants of the API package; they are kept symbolic.
  An event is what one call of \<open>f.rec.Event\<close> records; its object is \<open>f.cluster\<close> in
  every call and is not repeated in the record.
\<close>

datatype EventType = EventNormal | EventWarning

datatype EventReason =
    EventReasonDbSecretFailed | EventReasonDbSecretUpdated
  | EventReasonConfigMapFailed | EventReasonConfigMapUpdated
  | EventReasonServiceFailed | EventReasonServiceUpdated
  | EventReasonSFSFailed | EventReasonSFSUpdated
  | EventReasonCronJobFailed | EventReasonCronJobUpdated

record Event =
  eventtype :: EventType
  reason :: EventReason
  message :: string

definition statusUpToDate :: string where "statusUpToDate = ''up-to-date''"
definition statusCreated :: string where "statusCreated = ''created''"
definition statusUpdated :: string where "statusUpdated = ''updated''"
definition statusFailed :: string where "statusFailed = ''faild''"
definition statusOk :: string where "statusOk = ''ok''"
definition statusSkip :: string where "statusSkip = ''skip''"

record 'w component =
  comp_alias :: string
  name :: string
  syncFn :: "'w \<Rightarrow> (string \<times> error option) \<times> 'w"
  reasonFailed :: EventReason
  reasonUpdated :: EventReason

text \<open>
  The five sync methods of the factory are defined in other files. The factory record
  carries them as fields: each acts on the managed resources, the world \<open>'w\<close>, and
  returns a status and an error. The cluster definition and the recorder are not part
  of that world.
\<close>

record 'w cFactory =
  cluster :: MysqlCluster
  syncClusterSecret :: "'w \<Rightarrow> (string \<times> error option) \<times> 'w"
  syncConfigMysqlMap :: "'w \<Rightarrow> (string \<times> error option) \<times> 'w"
  syncHeadlessService :: "'w \<Rightarrow> (string \<times> error option) \<times> 'w"
  syncStatefulSet :: "'w \<Rightarrow> (string \<times> error option) \<times> 'w"
  syncBackupCronJob :: "'w \<Rightarrow> (string \<times> error option) \<times> 'w"

text \<open>What a call of \<open>Sync\<close> changes: the events recorded so far and the world.\<close>

record 'w state =
  events :: "Event list"
  world :: 'w

definition getComponents :: "'w cFactory \<Rightarrow> 'w component list" where
  "getComponents f =
     [\<lparr>comp_alias = ''cluster-secret'',
       name = SecretName (Spec (cluster f)),
       syncFn = syncClusterSecret f,
       reasonFailed = EventReasonDbSecretFailed,
       reasonUpdated = EventReasonDbSecretUpdated\<rparr>,
      \<lparr>comp_alias = ''config-map'',
       name = MysqlCluster_GetNameForResource (cluster f) ConfigMap,
       syncFn = syncConfigMysqlMap f,
       reasonFailed = EventReasonConfigMapFailed,
       reasonUpdated = EventReasonConfigMapUpdated\<rparr>,
      \<lparr>comp_alias = ''headless-service'',
       name = MysqlCluster_GetNameForResource (cluster f) HeadlessSVC,
       syncFn = syncHeadlessService f,
       reasonFailed = EventReasonServiceFailed,
       reasonUpdated = EventReasonServiceUpdated\<rparr>,
      \<lparr>comp_alias = ''statefulset'',
       name = MysqlCluster_GetNameForResource (cluster f) StatefulSet,
       syncFn = syncStatefulSet f,
       reasonFailed = EventReasonSFSFailed,
       reasonUpdated = EventReasonSFSUpdated\<rparr>,
      \<lparr>comp_alias = ''backup-cron-job'',
       name = MysqlCluster_GetNameForResource (cluster f) BackupCronJob,
       syncFn = syncBackupCronJob f,
       reasonFailed = EventReasonCronJobFailed,
       reasonUpdated = EventReasonCronJobUpdated\<rparr>]"

definition Event_rec :: "EventType \<Rightarrow> EventReason \<Rightarrow> string \<Rightarrow> 'w state \<Rightarrow> 'w state" where
  "Event_rec t r msg s = s\<lparr>events := events s @ [\<lparr>eventtype = t, reason = r, message = msg\<rparr>]\<rparr>"

text \<open>
  The loop over the components. A failing unit ends the call: the result is the wrapped
  error, and the state is the one in which \<open>Sync\<close> returns.
\<close>

fun sync_loop :: "'w component list \<Rightarrow> 'w state \<Rightarrow> error option \<times> 'w state" where
  "sync_loop [] s = (None, s)"
| "sync_loop (comp' # comps) s =
     (case syncFn comp' (world s) of
        ((st, Some err), w) \<Rightarrow>
          (let err' = name comp' @ '' sync failed: '' @ err
           in (Some err', Event_rec EventWarning (reasonFailed comp') err' (s\<lparr>world := w\<rparr>)))
      | ((st, None), w) \<Rightarrow>
          sync_loop comps
            (if st = statusCreated \<or> st = statusUpdated
             then Event_rec EventNormal (reasonUpdated comp') [] (s\<lparr>world := w\<rparr>)
             else s\<lparr>world := w\<rparr>))"

definition getHostForReplica :: "'w cFactory \<Rightarrow> int \<Rightarrow> string" where
  "getHostForReplica f no =
     MysqlCluster_GetNameForResource (cluster f) StatefulSet @ ''-'' @ FormatInt no @ ''.'' @
     MysqlCluster_GetNameForResource (cluster f) HeadlessSVC @ ''.'' @
     Namespace (cluster f)"

text \<open>
  The registration loop \<open>for i := 0; i < n; i++\<close>; the error of \<open>Discover\<close> is logged
  and dropped. \<open>MysqlPort\<close> is a constant of the package declared elsewhere, a parameter.
\<close>

function discover_loop ::
  "'w orc_client \<Rightarrow> int \<Rightarrow> 'w cFactory \<Rightarrow> int \<Rightarrow> int \<Rightarrow> 'w \<Rightarrow> 'w" where
  "discover_loop client MysqlPort f i n w =
     (if i < n
      then (let host = getHostForReplica f i;
                (err, w') = Discover client host MysqlPort w
            in discover_loop client MysqlPort f (i + 1) n w')
      else w)"
  by pat_completeness auto
termination
  by (relation "measure (\<lambda>(client, MysqlPort, f, i, n, w). nat (n - i))") auto

declare discover_loop.simps [simp del]

definition Sync ::
  "Options \<Rightarrow> (string \<Rightarrow> 'w orc_client) \<Rightarrow> int \<Rightarrow> 'w cFactory \<Rightarrow> 'w state \<Rightarrow> error option \<times> 'w state" where
  "Sync opt NewFromUri MysqlPort f s =
     (case sync_loop (getComponents f) s of
        (Some err, s') \<Rightarrow> (Some err, s')
      | (None, s') \<Rightarrow>
          (if length (GetOrcUri opt (Spec (cluster f))) \<noteq> 0
           then (let client = NewFromUri (GetOrcUri opt (Spec (cluster f)))
                 in (None, s'\<lparr>world :=
                      discover_loop client MysqlPort f 0 (ReadyNodes (Status (cluster f))) (world s')\<rparr>))
           else (None, s')))"

section \<open>Notions used in the statements\<close>

text \<open>
  The configuration map that the two sizing blocks leave, as a function of the map and
  the resource requests they find.
\<close>

definition sized :: "Quantity option \<Rightarrow> ResourceList \<Rightarrow> MysqlConf \<Rightarrow> MysqlConf" where
  "sized nomem rq m =
     (let m1 = (case m ''innodb-buffer-pool-size'' of
                  Some v \<Rightarrow> m
                | None \<Rightarrow>
                   (case Memory nomem rq of
                      None \<Rightarrow> m
                    | Some mem \<Rightarrow> m(''innodb-buffer-pool-size'' \<mapsto> FormatInt (bufferSize mem))))
      in (case m1 ''innodb-log-file-size'' of
            Some v \<Rightarrow> m1
          | None \<Rightarrow>
             (case Memory nomem rq of
                None \<Rightarrow> m1
              | Some mem \<Rightarrow> m1(''innodb-log-file-size'' \<mapsto> FormatInt (logFileSize mem)))))"

text \<open>An instance qualifies when its replication lag is known and at most 5 seconds.\<close>

definition qualifies :: "Instance \<Rightarrow> bool" where
  "qualifies r = (Valid (SecondsBehindMaster r) \<and> Int64 (SecondsBehindMaster r) \<le> 5)"

text \<open>
  For a list of units run in order from a world \<open>w\<close>, each in the world its predecessor
  leaves: the world after the last one, whether all return a nil error, and the normal
  events due for the statuses they return.
\<close>

fun run_units :: "'w component list \<Rightarrow> 'w \<Rightarrow> 'w" where
  "run_units [] w = w"
| "run_units (u # us) w = run_units us (snd (syncFn u w))"

fun units_ok :: "'w component list \<Rightarrow> 'w \<Rightarrow> bool" where
  "units_ok [] w = True"
| "units_ok (u # us) w = (snd (fst (syncFn u w)) = None \<and> units_ok us (snd (syncFn u w)))"

fun update_events :: "'w component list \<Rightarrow> 'w \<Rightarrow> Event list" where
  "update_events [] w = []"
| "update_events (u # us) w =
     (if fst (fst (syncFn u w)) = statusCreated \<or> fst (fst (syncFn u w)) = statusUpdated
      then [\<lparr>eventtype = EventNormal, reason = reasonUpdated u, message = []\<rparr>] else []) @
     update_events us (snd (syncFn u w))"

text \<open>
  One \<open>Discover\<close> call for each listed member in turn, whatever error the calls before
  it returned.
\<close>

definition register_all :: "'w orc_client \<Rightarrow> int \<Rightarrow> 'w cFactory \<Rightarrow> int list \<Rightarrow> 'w \<Rightarrow> 'w" where
  "register_all client MysqlPort f members w =
     foldl (\<lambda>w i. snd (Discover client (getHostForReplica f i) MysqlPort w)) w members"

subsection \<open>Concrete inputs\<close>

definition options_of :: "string \<Rightarrow> Options" where
  "options_of uri = \<lparr>MysqlImageTag = ''5.7'', opt_ImagePullPolicy = ''Always'', OrchestratorUri = uri\<rparr>"

definition cluster_of :: "int \<Rightarrow> ResourceRequirements \<Rightarrow> MysqlConf \<Rightarrow> MysqlCluster" where
  "cluster_of n res conf =
     \<lparr>Name = ''db'', Namespace = ''prod'',
      Spec = \<lparr>SecretName = ''db-secret'', MysqlVersion = [],
        PodSpec = \<lparr>ImagePullPolicy = [], Resources = res,
          Affinity = \<lparr>PodAntiAffinity = None\<rparr>\<rparr>,
        MysqlConf = conf,
        VolumeSpec = \<lparr>AccessModes = [],
          vs_Resources = \<lparr>Limits = Map.empty, Requests = Map.empty\<rparr>\<rparr>\<rparr>,
      Status = \<lparr>ReadyNodes = n\<rparr>\<rparr>"

definition memory_request :: "Quantity \<Rightarrow> ResourceRequirements" where
  "memory_request q = \<lparr>Limits = Map.empty, Requests = [ResourceMemory \<mapsto> q]\<rparr>"

definition instance_of :: "string \<Rightarrow> int \<Rightarrow> bool \<Rightarrow> Instance" where
  "instance_of h lag known =
     \<lparr>Key = \<lparr>Hostname = h\<rparr>, SecondsBehindMaster = \<lparr>Int64 = lag, Valid = known\<rparr>\<rparr>"

definition replicas4 :: "Instance list" where
  "replicas4 = [instance_of ''replica-a'' 3 True, instance_of ''replica-b'' 2 True,
                instance_of ''replica-c'' 10 True, instance_of ''replica-d'' 0 False]"

text \<open>
  A world that is the list of the calls made so far. The client \<open>orc_of\<close> answers the
  queries with a fixed primary and the given replicas, and its \<open>Discover\<close> fails for
  the one host \<open>bad\<close>; \<open>orc_down\<close> fails every query. In \<open>factory_of c k\<close> the unit of
  index \<open>k\<close> fails and the others report a created resource.
\<close>

definition orc_of :: "Instance list \<Rightarrow> string \<Rightarrow> string \<Rightarrow> string list orc_client" where
  "orc_of replicas bad uri =
     \<lparr>Discover = (\<lambda>host port w.
         (if host = bad then Some ''connection refused'' else None, w @ [''discover '' @ host])),
      Master = (\<lambda>cl. Inr (instance_of ''primary.example'' 0 True)),
      ClusterOSCReplicas = (\<lambda>cl. Inr replicas)\<rparr>"

definition orc_down :: "string \<Rightarrow> string list orc_client" where
  "orc_down uri =
     \<lparr>Discover = (\<lambda>host port w. (Some ''timeout'', w @ [''discover '' @ host])),
      Master = (\<lambda>cl. Inl ''timeout''),
      ClusterOSCReplicas = (\<lambda>cl. Inl ''timeout'')\<rparr>"

definition unit_of :: "nat \<Rightarrow> nat \<Rightarrow> string \<Rightarrow> string list \<Rightarrow> (string \<times> error option) \<times> string list" where
  "unit_of k i a w =
     (if i = k then ((statusFailed, Some ''boom''), w @ [a]) else ((statusCreated, None), w @ [a]))"

definition factory_of :: "MysqlCluster \<Rightarrow> nat \<Rightarrow> string list cFactory" where
  "factory_of c k =
     \<lparr>cluster = c,
      syncClusterSecret = unit_of k 0 ''secret'',
      syncConfigMysqlMap = unit_of k 1 ''config'',
      syncHeadlessService = unit_of k 2 ''service'',
      syncStatefulSet = unit_of k 3 ''statefulset'',
      syncBackupCronJob = unit_of k 4 ''cronjob''\<rparr>"

section \<open>Evaluation and arithmetic of the binary64 model\<close>

lemmas eval_format = FormatInt_def digits10.simps digit_char_def

lemmas eval_float = float64_mul_def float64_of_int_def float64_round_def bitlen.simps
  rshift_half_even_def int64_of_float_def float_0_5_def float_0_75_def Let_def

lemma Value_int64: "- (2 ^ 63) \<le> Value q \<and> Value q < 2 ^ 63"
  using sint_ge [of q] sint_lt [of q] by (simp add: Value_def)

lemma bitlen_le: "n < 2 ^ k \<Longrightarrow> bitlen n \<le> k"
proof (induction k arbitrary: n)
  case 0
  then show ?case by (simp add: bitlen.simps)
next
  case (Suc k)
  show ?case
  proof (cases "n = 0")
    case True
    then show ?thesis by (simp add: bitlen.simps)
  next
    case False
    from Suc.prems have "n div 2 < 2 ^ k" by simp
    then have "bitlen (n div 2) \<le> k" by (rule Suc.IH)
    with False show ?thesis by (subst bitlen.simps) simp
  qed
qed

lemma float64_round_exact:
  assumes "\<bar>m\<bar> < 2 ^ 53"
  shows "float64_round (m, e) = (m, e)"
proof -
  from assms have "nat \<bar>m\<bar> < 2 ^ 53" by (simp add: nat_less_iff)
  then have "bitlen (nat \<bar>m\<bar>) \<le> 53" by (rule bitlen_le)
  then show ?thesis by (simp add: float64_round_def)
qed

lemma int64_half:
  assumes "0 \<le> M" "M < 2 ^ 53"
  shows "int64_of_float (float64_mul (float64_of_int M) float_0_5) = M div 2"
proof -
  from assms have "\<bar>M\<bar> < 2 ^ 53" by simp
  then have a: "float64_of_int M = (M, 0)"
    unfolding float64_of_int_def by (rule float64_round_exact)
  from assms have "\<bar>M * 1\<bar> < 2 ^ 53" by simp
  then have "float64_round (M * 1, 0 + - 1) = (M * 1, 0 + - 1)" by (rule float64_round_exact)
  then have "float64_mul (float64_of_int M) float_0_5 = (M, - 1)"
    by (simp add: float64_mul_def a float_0_5_def)
  with assms show ?thesis by (simp add: int64_of_float_def)
qed

lemma int64_three_quarters:
  assumes "0 \<le> M" "3 * M < 2 ^ 53"
  shows "int64_of_float (float64_mul (float64_of_int M) float_0_75) = 3 * M div 4"
proof -
  from assms have "\<bar>M\<bar> < 2 ^ 53" by simp
  then have a: "float64_of_int M = (M, 0)"
    unfolding float64_of_int_def by (rule float64_round_exact)
  from assms have "\<bar>M * 3\<bar> < 2 ^ 53" by simp
  then have "float64_round (M * 3, 0 + - 2) = (M * 3, 0 + - 2)" by (rule float64_round_exact)
  then have "float64_mul (float64_of_int M) float_0_75 = (M * 3, - 2)"
    by (simp add: float64_mul_def a float_0_75_def)
  with assms show ?thesis by (simp add: int64_of_float_def mult.commute)
qed

section \<open>Properties of the defaulting engine\<close>

lemma PodSpec_UpdateDefaults_requests:
  "Requests (Resources (snd (PodSpec_UpdateDefaults opt cl ps))) =
     (if Requests (Resources ps) = Map.empty
      then [ResourceCPU \<mapsto> resourceRequestCPU, ResourceMemory \<mapsto> resourceRequestMemory]
      else Requests (Resources ps))"
  by (simp add: PodSpec_UpdateDefaults_def Let_def)

lemma PodSpec_UpdateDefaults_pair:
  "PodSpec_UpdateDefaults opt cl ps = (None, snd (PodSpec_UpdateDefaults opt cl ps))"
  by (simp add: PodSpec_UpdateDefaults_def Let_def)

lemma VolumeSpec_UpdateDefaults_pair:
  "VolumeSpec_UpdateDefaults vs = (None, snd (VolumeSpec_UpdateDefaults vs))"
  by (simp add: VolumeSpec_UpdateDefaults_def Let_def)

lemma default_buffer_pool_size_fields [simp]:
  "SecretName (default_buffer_pool_size nomem c) = SecretName c"
  "MysqlVersion (default_buffer_pool_size nomem c) = MysqlVersion c"
  "PodSpec (default_buffer_pool_size nomem c) = PodSpec c"
  "VolumeSpec (default_buffer_pool_size nomem c) = VolumeSpec c"
  by (simp_all add: default_buffer_pool_size_def split: option.splits)

lemma default_log_file_size_fields [simp]:
  "SecretName (default_log_file_size nomem c) = SecretName c"
  "MysqlVersion (default_log_file_size nomem c) = MysqlVersion c"
  "PodSpec (default_log_file_size nomem c) = PodSpec c"
  "VolumeSpec (default_log_file_size nomem c) = VolumeSpec c"
  by (simp_all add: default_log_file_size_def split: option.splits)

lemma blocks_conf:
  "MysqlConf (default_log_file_size nomem (default_buffer_pool_size nomem c)) =
     sized nomem (Requests (Resources (PodSpec c))) (MysqlConf c)"
  by (simp add: default_log_file_size_def default_buffer_pool_size_def sized_def Let_def
      split: option.splits)

lemma make_conf_noop:
  "(if MysqlConf c = Map.empty then c\<lparr>MysqlConf := Map.empty\<rparr> else c) = (c::ClusterSpec)"
proof (cases "MysqlConf c = Map.empty")
  case True
  then have "c\<lparr>MysqlConf := Map.empty\<rparr> = c\<lparr>MysqlConf := MysqlConf c\<rparr>" by simp
  then show ?thesis by simp
next
  case False
  then show ?thesis by simp
qed

lemma ClusterSpec_UpdateDefaults_err: "fst (ClusterSpec_UpdateDefaults nomem opt cl c) = None"
  unfolding ClusterSpec_UpdateDefaults_def
  apply (subst PodSpec_UpdateDefaults_pair)
  apply (subst VolumeSpec_UpdateDefaults_pair)
  apply (simp add: Let_def)
  done

lemma ClusterSpec_UpdateDefaults_snd:
  "snd (ClusterSpec_UpdateDefaults nomem opt cl c) =
     (default_log_file_size nomem (default_buffer_pool_size nomem
        (c\<lparr>MysqlVersion := (if length (MysqlVersion c) = 0 then MysqlImageTag opt else MysqlVersion c),
           PodSpec := snd (PodSpec_UpdateDefaults opt cl (PodSpec c))\<rparr>)))
     \<lparr>VolumeSpec := snd (VolumeSpec_UpdateDefaults (VolumeSpec c))\<rparr>"
  unfolding ClusterSpec_UpdateDefaults_def
  apply (subst PodSpec_UpdateDefaults_pair)
  apply (subst VolumeSpec_UpdateDefaults_pair)
  apply (simp only: Let_def make_conf_noop)
  apply simp
  done

lemma ClusterSpec_UpdateDefaults_conf:
  "MysqlConf (snd (ClusterSpec_UpdateDefaults nomem opt cl c)) =
     sized nomem (Requests (Resources (snd (PodSpec_UpdateDefaults opt cl (PodSpec c))))) (MysqlConf c)"
  by (simp add: ClusterSpec_UpdateDefaults_snd blocks_conf)

lemma UpdateDefaults_conf:
  "MysqlConf (Spec (snd (UpdateDefaults nomem opt c))) =
     sized nomem (Requests (Resources (snd (PodSpec_UpdateDefaults opt c (PodSpec (Spec c))))))
       (MysqlConf (Spec c))"
  by (simp add: UpdateDefaults_def split_beta ClusterSpec_UpdateDefaults_conf)


lemma sized_buffer:
  assumes "m ''innodb-buffer-pool-size'' = None" "rq ResourceMemory = Some q"
  shows "sized nomem rq m ''innodb-buffer-pool-size'' = Some (FormatInt (bufferSize q))"
  using assms by (simp add: sized_def Memory_def Let_def split: option.splits)

lemma sized_log:
  assumes "m ''innodb-log-file-size'' = None" "rq ResourceMemory = Some q"
  shows "sized nomem rq m ''innodb-log-file-size'' = Some (FormatInt (logFileSize q))"
  using assms by (simp add: sized_def Memory_def Let_def split: option.splits)

lemma bufferSize_tiers:
  assumes "3 * Value q < 2 ^ 53"
  shows "bufferSize q =
     (if Value q < GB then 128 * MB else if Value q \<le> 4 * GB then Value q div 2
      else 3 * Value q div 4)"
proof -
  have "int64_of_float (float64_mul (float64_of_int (Value q)) float_0_5) = Value q div 2"
    if "GB \<le> Value q"
    using that assms by (intro int64_half) (simp_all add: GB_def)
  moreover have "int64_of_float (float64_mul (float64_of_int (Value q)) float_0_75) = 3 * Value q div 4"
    if "GB \<le> Value q"
    using that assms by (intro int64_three_quarters) (simp_all add: GB_def)
  ultimately show ?thesis by (simp add: bufferSize_def)
qed

lemma UpdateDefaults_present:
  assumes "Requests (Resources (PodSpec (Spec c))) ResourceMemory = Some q"
  shows "MysqlConf (Spec (snd (UpdateDefaults nomem opt c))) =
     sized nomem (Requests (Resources (PodSpec (Spec c)))) (MysqlConf (Spec c))"
proof -
  from assms have "Requests (Resources (PodSpec (Spec c))) \<noteq> Map.empty" by auto
  then show ?thesis by (simp add: UpdateDefaults_conf PodSpec_UpdateDefaults_requests)
qed

lemma UpdateDefaults_floor:
  assumes "Requests (Resources (PodSpec (Spec c))) = Map.empty"
  shows "MysqlConf (Spec (snd (UpdateDefaults nomem opt c))) =
     sized nomem [ResourceCPU \<mapsto> resourceRequestCPU, ResourceMemory \<mapsto> resourceRequestMemory]
       (MysqlConf (Spec c))"
  using assms by (simp add: UpdateDefaults_conf PodSpec_UpdateDefaults_requests)

text \<open>
  Claim C1. For a definition without the key \<open>innodb-log-file-size\<close> and with a memory
  request \<open>M\<close>, \<open>4 GiB < M \<le> 8 GiB\<close>, the tier table gives 512 MiB, the string
  \<open>536870912\<close>. The code computes \<open>512 * GB\<close> in that tier: at \<open>M = 6 GiB\<close> the key
  is set to \<open>549755813888\<close>, that is 512 GiB.
\<close>

theorem UpdateDefaults_log_file_size_6GiB:
  "MysqlConf (Spec (snd (UpdateDefaults nomem opt
      (cluster_of 3 (memory_request 6442450944) Map.empty)))) ''innodb-log-file-size''
     = Some ''549755813888''
   \<and> 4 * GB < Value 6442450944 \<and> Value 6442450944 \<le> 8 * GB
   \<and> FormatInt (512 * MB) = ''536870912''"
proof -
  have v: "Value 6442450944 = 6442450944" by (simp add: Value_def)
  have l: "logFileSize 6442450944 = 549755813888" by (simp add: logFileSize_def v GB_def)
  have f: "FormatInt 549755813888 = ''549755813888''" by (simp add: eval_format)
  have g: "FormatInt 536870912 = ''536870912''" by (simp add: eval_format)
  have "MysqlConf (Spec (snd (UpdateDefaults nomem opt
      (cluster_of 3 (memory_request 6442450944) Map.empty)))) ''innodb-log-file-size''
     = Some (FormatInt (logFileSize 6442450944))"
    by (subst UpdateDefaults_present [where q = 6442450944])
       (simp_all add: cluster_of_def memory_request_def sized_log)
  then show ?thesis by (simp add: l f g v GB_def MB_def)
qed

text \<open>
  Claim C8, as amended. For a definition without the key \<open>innodb-buffer-pool-size\<close> and
  with a memory request present, let \<open>V\<close> be the \<open>int64\<close> that \<open>Value()\<close> returns for
  that request. If \<open>3 * V < 2 ^ 53\<close>, applying defaults sets the key to the decimal
  string of 128 MiB when \<open>V < 1 GiB\<close>, of the integer part of \<open>V * 0.5\<close> when
  \<open>1 GiB \<le> V \<le> 4 GiB\<close>, and of the integer part of \<open>V * 0.75\<close> when \<open>V > 4 GiB\<close>.
\<close>

theorem UpdateDefaults_buffer_pool_size:
  assumes "MysqlConf (Spec c) ''innodb-buffer-pool-size'' = None"
    and "Requests (Resources (PodSpec (Spec c))) ResourceMemory = Some q"
    and "3 * Value q < 2 ^ 53"
  shows "MysqlConf (Spec (snd (UpdateDefaults nomem opt c))) ''innodb-buffer-pool-size'' =
     Some (FormatInt (if Value q < GB then 128 * MB
                      else if Value q \<le> 4 * GB then Value q div 2
                      else 3 * Value q div 4))"
proof -
  have "MysqlConf (Spec (snd (UpdateDefaults nomem opt c))) ''innodb-buffer-pool-size'' =
      Some (FormatInt (bufferSize q))"
    using assms(1,2) by (simp add: UpdateDefaults_present sized_buffer)
  then show ?thesis by (simp only: bufferSize_tiers [OF assms(3)])
qed

theorem UpdateDefaults_buffer_pool_size_witness:
  "MysqlConf (Spec (cluster_of 3 (memory_request 6442450944) Map.empty)) ''innodb-buffer-pool-size'' = None
   \<and> Requests (Resources (PodSpec (Spec (cluster_of 3 (memory_request 6442450944) Map.empty))))
        ResourceMemory = Some 6442450944
   \<and> 3 * Value 6442450944 < 2 ^ 53
   \<and> MysqlConf (Spec (snd (UpdateDefaults None (options_of [])
        (cluster_of 3 (memory_request 6442450944) Map.empty)))) ''innodb-buffer-pool-size'' =
      Some ''4831838208''"
proof -
  have v: "Value 6442450944 = 6442450944" by (simp add: Value_def)
  have f: "FormatInt 4831838208 = ''4831838208''" by (simp add: eval_format)
  show ?thesis
    using UpdateDefaults_buffer_pool_size [of "cluster_of 3 (memory_request 6442450944) Map.empty"
        6442450944 None "options_of []"]
    by (simp add: cluster_of_def memory_request_def v f GB_def MB_def)
qed

text \<open>
  The claim as stated fails for a large request: for a request of \<open>2 ^ 62 + 300\<close> bytes,
  which \<open>Value()\<close> returns as it is, the conversion to \<open>float64\<close> rounds it to \<open>2 ^ 62\<close>,
  and the key is set to \<open>3 * 2 ^ 60\<close>, which is 225 less than three quarters of the
  request.
\<close>

theorem UpdateDefaults_buffer_pool_size_counterexample:
  "MysqlConf (Spec (snd (UpdateDefaults None (options_of [])
      (cluster_of 3 (memory_request 4611686018427388204) Map.empty)))) ''innodb-buffer-pool-size''
     = Some ''3458764513820540928''
   \<and> MysqlConf (Spec (snd (UpdateDefaults None (options_of [])
      (cluster_of 3 (memory_request 4611686018427388204) Map.empty)))) ''innodb-buffer-pool-size''
     \<noteq> Some (FormatInt (3 * Value 4611686018427388204 div 4))
   \<and> 4 * GB < Value 4611686018427388204
   \<and> FormatInt (3 * Value 4611686018427388204 div 4) = ''3458764513820541153''
   \<and> 4 * (3458764513820541153 :: int) = 3 * Value 4611686018427388204"
proof -
  have v: "Value 4611686018427388204 = 4611686018427388204" by (simp add: Value_def)
  have b: "bufferSize 4611686018427388204 = 3458764513820540928"
    by (simp add: bufferSize_def v GB_def eval_float)
  have f: "FormatInt 3458764513820540928 = ''3458764513820540928''" by (simp add: eval_format)
  have g: "FormatInt 3458764513820541153 = ''3458764513820541153''" by (simp add: eval_format)
  have "MysqlConf (Spec (snd (UpdateDefaults None (options_of [])
      (cluster_of 3 (memory_request 4611686018427388204) Map.empty)))) ''innodb-buffer-pool-size''
     = Some (FormatInt (bufferSize 4611686018427388204))"
    by (subst UpdateDefaults_present [where q = 4611686018427388204])
       (simp_all add: cluster_of_def memory_request_def sized_buffer)
  then show ?thesis by (simp add: b f g v GB_def)
qed

text \<open>
  Claim C10. For a definition with empty resource requests and with neither sizing key
  set, applying defaults installs the memory request of 1 GiB and computes both keys from
  it: \<open>innodb-buffer-pool-size\<close> is \<open>536870912\<close> and \<open>innodb-log-file-size\<close> is
  \<open>134217728\<close>.
\<close>

theorem UpdateDefaults_floor_sizes:
  assumes "Requests (Resources (PodSpec (Spec c))) = Map.empty"
    and "MysqlConf (Spec c) ''innodb-buffer-pool-size'' = None"
    and "MysqlConf (Spec c) ''innodb-log-file-size'' = None"
  shows "Requests (Resources (PodSpec (Spec (snd (UpdateDefaults nomem opt c))))) ResourceMemory
           = Some (of_int GB)
       \<and> MysqlConf (Spec (snd (UpdateDefaults nomem opt c))) ''innodb-buffer-pool-size''
           = Some ''536870912''
       \<and> MysqlConf (Spec (snd (UpdateDefaults nomem opt c))) ''innodb-log-file-size''
           = Some ''134217728''"
proof -
  let ?rq = "[ResourceCPU \<mapsto> resourceRequestCPU, ResourceMemory \<mapsto> resourceRequestMemory]"
  have m: "?rq ResourceMemory = Some resourceRequestMemory" by simp
  have v: "Value resourceRequestMemory = 1073741824"
    by (simp add: Value_def resourceRequestMemory_def)
  have "3 * Value resourceRequestMemory < 2 ^ 53" by (simp add: v)
  then have b: "bufferSize resourceRequestMemory = 536870912"
    by (simp add: bufferSize_tiers v GB_def)
  have l: "logFileSize resourceRequestMemory = 134217728"
    by (simp add: logFileSize_def v GB_def MB_def)
  have f: "FormatInt 536870912 = ''536870912''" by (simp add: eval_format)
  have g: "FormatInt 134217728 = ''134217728''" by (simp add: eval_format)
  have 1: "Requests (Resources (PodSpec (Spec (snd (UpdateDefaults nomem opt c))))) ResourceMemory
           = Some (of_int GB)"
    using assms(1)
    by (simp add: UpdateDefaults_def split_beta ClusterSpec_UpdateDefaults_snd
        PodSpec_UpdateDefaults_requests resourceRequestMemory_def GB_def)
  have 2: "MysqlConf (Spec (snd (UpdateDefaults nomem opt c))) ''innodb-buffer-pool-size''
           = Some ''536870912''"
    unfolding UpdateDefaults_floor [OF assms(1)]
    using sized_buffer [of "MysqlConf (Spec c)" ?rq resourceRequestMemory nomem] assms(2) m
    by (simp add: b f)
  have 3: "MysqlConf (Spec (snd (UpdateDefaults nomem opt c))) ''innodb-log-file-size''
           = Some ''134217728''"
    unfolding UpdateDefaults_floor [OF assms(1)]
    using sized_log [of "MysqlConf (Spec c)" ?rq resourceRequestMemory nomem] assms(3) m
    by (simp add: l g)
  from 1 2 3 show ?thesis by simp
qed

theorem UpdateDefaults_floor_sizes_witness:
  "Requests (Resources (PodSpec (Spec (cluster_of 0 \<lparr>Limits = Map.empty, Requests = Map.empty\<rparr> Map.empty))))
     = Map.empty
   \<and> MysqlConf (Spec (cluster_of 0 \<lparr>Limits = Map.empty, Requests = Map.empty\<rparr> Map.empty))
       ''innodb-buffer-pool-size'' = None
   \<and> MysqlConf (Spec (cluster_of 0 \<lparr>Limits = Map.empty, Requests = Map.empty\<rparr> Map.empty))
       ''innodb-log-file-size'' = None
   \<and> MysqlConf (Spec (snd (UpdateDefaults None (options_of [])
        (cluster_of 0 \<lparr>Limits = Map.empty, Requests = Map.empty\<rparr> Map.empty))))
       ''innodb-buffer-pool-size'' = Some ''536870912''
   \<and> MysqlConf (Spec (snd (UpdateDefaults None (options_of [])
        (cluster_of 0 \<lparr>Limits = Map.empty, Requests = Map.empty\<rparr> Map.empty))))
       ''innodb-log-file-size'' = Some ''134217728''"
  using UpdateDefaults_floor_sizes
    [of "cluster_of 0 \<lparr>Limits = Map.empty, Requests = Map.empty\<rparr> Map.empty" None "options_of []"]
  by (simp add: cluster_of_def)

text \<open>
  Claim C7. Applying defaults leaves every field that is already set unchanged. The
  code replaces the whole of \<open>Resources\<close> when the requests are empty: a definition
  with a memory limit and no requests loses the limit.
\<close>

theorem UpdateDefaults_drops_limits:
  "Limits (Resources (PodSpec (Spec
      (cluster_of 3 \<lparr>Limits = [ResourceMemory \<mapsto> 2147483648], Requests = Map.empty\<rparr> Map.empty))))
     ResourceMemory = Some 2147483648
   \<and> Limits (Resources (PodSpec (Spec (snd (UpdateDefaults nomem opt
      (cluster_of 3 \<lparr>Limits = [ResourceMemory \<mapsto> 2147483648], Requests = Map.empty\<rparr> Map.empty))))))
     ResourceMemory = None"
  by (simp add: cluster_of_def UpdateDefaults_def split_beta ClusterSpec_UpdateDefaults_snd
      PodSpec_UpdateDefaults_def Let_def)

text \<open>
  The other half of that sentence holds: applying defaults twice gives what applying
  them once gives.
\<close>

lemma PodSpec_UpdateDefaults_idem:
  assumes "Name cl' = Name cl"
  shows "snd (PodSpec_UpdateDefaults opt cl' (snd (PodSpec_UpdateDefaults opt cl ps))) =
         snd (PodSpec_UpdateDefaults opt cl ps)"
  using assms by (simp add: PodSpec_UpdateDefaults_def Let_def GetLabels_def)

lemma VolumeSpec_UpdateDefaults_idem:
  "snd (VolumeSpec_UpdateDefaults (snd (VolumeSpec_UpdateDefaults vs))) =
   snd (VolumeSpec_UpdateDefaults vs)"
  by (simp add: VolumeSpec_UpdateDefaults_def Let_def)

lemma sized_idem: "sized nomem rq (sized nomem rq m) = sized nomem rq m"
  by (simp add: sized_def Let_def split: option.splits)

lemma ClusterSpec_UpdateDefaults_fields:
  "SecretName (snd (ClusterSpec_UpdateDefaults nomem opt cl c)) = SecretName c"
  "MysqlVersion (snd (ClusterSpec_UpdateDefaults nomem opt cl c)) =
     (if length (MysqlVersion c) = 0 then MysqlImageTag opt else MysqlVersion c)"
  "PodSpec (snd (ClusterSpec_UpdateDefaults nomem opt cl c)) =
     snd (PodSpec_UpdateDefaults opt cl (PodSpec c))"
  "VolumeSpec (snd (ClusterSpec_UpdateDefaults nomem opt cl c)) =
     snd (VolumeSpec_UpdateDefaults (VolumeSpec c))"
  by (simp_all add: ClusterSpec_UpdateDefaults_snd)

lemma ClusterSpec_UpdateDefaults_idem:
  assumes "Name cl' = Name cl"
  shows "snd (ClusterSpec_UpdateDefaults nomem opt cl' (snd (ClusterSpec_UpdateDefaults nomem opt cl c))) =
         snd (ClusterSpec_UpdateDefaults nomem opt cl c)"
proof (rule ClusterSpec.equality)
  let ?F = "snd (ClusterSpec_UpdateDefaults nomem opt cl c)"
  let ?G = "snd (ClusterSpec_UpdateDefaults nomem opt cl' ?F)"
  show "SecretName ?G = SecretName ?F" by (simp add: ClusterSpec_UpdateDefaults_fields)
  show "MysqlVersion ?G = MysqlVersion ?F" by (simp add: ClusterSpec_UpdateDefaults_fields)
  show "PodSpec ?G = PodSpec ?F"
    by (simp add: ClusterSpec_UpdateDefaults_fields PodSpec_UpdateDefaults_idem [OF assms])
  show "VolumeSpec ?G = VolumeSpec ?F"
    by (simp add: ClusterSpec_UpdateDefaults_fields VolumeSpec_UpdateDefaults_idem)
  show "MysqlConf ?G = MysqlConf ?F"
    by (simp add: ClusterSpec_UpdateDefaults_conf ClusterSpec_UpdateDefaults_fields
        PodSpec_UpdateDefaults_idem [OF assms] sized_idem)
  show "ClusterSpec.more ?G = ClusterSpec.more ?F" by simp
qed

lemma UpdateDefaults_idem:
  "UpdateDefaults nomem opt (snd (UpdateDefaults nomem opt c)) = UpdateDefaults nomem opt c"
proof -
  let ?c' = "snd (UpdateDefaults nomem opt c)"
  have n: "Name ?c' = Name c" by (simp add: UpdateDefaults_def split_beta)
  have s: "Spec ?c' = snd (ClusterSpec_UpdateDefaults nomem opt c (Spec c))"
    by (simp add: UpdateDefaults_def split_beta)
  have e: "fst (UpdateDefaults nomem opt x) = None" for x
    by (simp add: UpdateDefaults_def split_beta ClusterSpec_UpdateDefaults_err)
  have "snd (UpdateDefaults nomem opt ?c') = ?c'"
    unfolding UpdateDefaults_def [of nomem opt ?c'] split_beta
    by (simp add: s ClusterSpec_UpdateDefaults_idem [OF n])
  with e [of ?c'] e [of c] show ?thesis by (simp add: prod_eq_iff)
qed

section \<open>Properties of the member hostnames and of the topology resolver\<close>

lemma GetPodHostName_eq:
  "GetPodHostName c p = Name c @ ''-mysql-'' @ FormatInt p @ ''.'' @ Name c @ ''-mysql''"
  by (simp add: GetPodHostName_def MysqlCluster_GetNameForResource_def GetNameForResource_def)

lemma getHostForReplica_eq:
  "getHostForReplica f no =
     Name (cluster f) @ ''-mysql-'' @ FormatInt no @ ''.'' @ Name (cluster f) @ ''-mysql.'' @
     Namespace (cluster f)"
  by (simp add: getHostForReplica_def MysqlCluster_GetNameForResource_def GetNameForResource_def)

lemmas eval_hosts = GetPodHostName_eq getHostForReplica_eq cluster_of_def eval_format

lemma replicas_loop_last:
  "replicas_loop rs host =
     (if filter qualifies rs = [] then host else Hostname (Key (last (filter qualifies rs))))"
proof (induction rs arbitrary: host)
  case Nil
  show ?case by simp
next
  case (Cons r rs)
  show ?case
  proof (cases "qualifies r")
    case True
    then have "replicas_loop (r # rs) host = replicas_loop rs (Hostname (Key r))"
      by (simp add: qualifies_def)
    then show ?thesis using True by (simp add: Cons.IH)
  next
    case False
    then have "replicas_loop (r # rs) host = replicas_loop rs host"
      by (auto simp add: qualifies_def)
    then show ?thesis using False by (simp add: Cons.IH)
  qed
qed

lemma filter_replicas4:
  "filter qualifies replicas4 = [instance_of ''replica-a'' 3 True, instance_of ''replica-b'' 2 True]"
  by (simp add: replicas4_def qualifies_def instance_of_def)

text \<open>
  Claim C9. Every member hostname has the form
  \<open><workload>-<index>.<endpoint>.<scope>\<close>. The hostnames used for registration have it;
  the static defaults of the resolver, which \<open>GetPodHostName\<close> builds, stop before the
  scope: for the cluster \<open>db\<close> in the scope \<open>prod\<close>, member 0 is registered as
  \<open>db-mysql-0.db-mysql.prod\<close> and resolved by default as \<open>db-mysql-0.db-mysql\<close>.
\<close>

theorem GetPodHostName_without_scope:
  "GetPodHostName (cluster_of 3 (memory_request 1) Map.empty) 0 = ''db-mysql-0.db-mysql''
   \<and> getHostForReplica (factory_of (cluster_of 3 (memory_request 1) Map.empty) 5) 0
       = ''db-mysql-0.db-mysql.prod''
   \<and> Namespace (cluster_of 3 (memory_request 1) Map.empty) = ''prod''
   \<and> GetMasterHost (options_of []) (orc_of [] []) (cluster_of 3 (memory_request 1) Map.empty)
       = ''db-mysql-0.db-mysql''"
  by (simp add: eval_hosts factory_of_def GetMasterHost_def GetOrcUri_def options_of_def)

text \<open>
  Claim C5. With no topology authority configured, \<open>GetMasterHost\<close> returns the hostname
  of member 0 whatever the ready count, and \<open>GetHealtySlaveHost\<close> returns the hostname of
  member \<open>ready - 1\<close> when the ready count is at least 1 and of member 0 otherwise. Both
  functions always return a hostname: when a query of a configured authority fails, they
  return the same default.
\<close>

theorem resolver_fallback:
  "(OrchestratorUri opt = [] \<longrightarrow>
      GetMasterHost opt NewFromUri c = GetPodHostName c 0 \<and>
      GetHealtySlaveHost opt NewFromUri c =
        (if 1 \<le> ReadyNodes (Status c) then GetPodHostName c (ReadyNodes (Status c) - 1)
         else GetPodHostName c 0)) \<and>
   (Master (NewFromUri (OrchestratorUri opt)) (Name c @ ''.'' @ Namespace c) = Inl e \<longrightarrow>
      GetMasterHost opt NewFromUri c = GetPodHostName c 0) \<and>
   (ClusterOSCReplicas (NewFromUri (OrchestratorUri opt)) (Name c) = Inl e' \<longrightarrow>
      GetHealtySlaveHost opt NewFromUri c =
        (if 1 \<le> ReadyNodes (Status c) then GetPodHostName c (ReadyNodes (Status c) - 1)
         else GetPodHostName c 0))"
  by (auto simp add: GetMasterHost_def GetHealtySlaveHost_def GetOrcUri_def Let_def)

theorem resolver_fallback_witness:
  "GetMasterHost (options_of []) (orc_of replicas4 []) (cluster_of 3 (memory_request 1) Map.empty)
     = ''db-mysql-0.db-mysql''
   \<and> GetHealtySlaveHost (options_of []) (orc_of replicas4 []) (cluster_of 3 (memory_request 1) Map.empty)
     = ''db-mysql-2.db-mysql''
   \<and> GetHealtySlaveHost (options_of []) (orc_of replicas4 []) (cluster_of 0 (memory_request 1) Map.empty)
     = ''db-mysql-0.db-mysql''
   \<and> Master (orc_down (OrchestratorUri (options_of ''http://orc''))) ''db.prod'' = Inl ''timeout''
   \<and> ClusterOSCReplicas (orc_down (OrchestratorUri (options_of ''http://orc''))) ''db'' = Inl ''timeout''
   \<and> GetMasterHost (options_of ''http://orc'') orc_down (cluster_of 3 (memory_request 1) Map.empty)
     = ''db-mysql-0.db-mysql''
   \<and> GetHealtySlaveHost (options_of ''http://orc'') orc_down (cluster_of 3 (memory_request 1) Map.empty)
     = ''db-mysql-2.db-mysql''"
proof -
  let ?c = "cluster_of 3 (memory_request 1) Map.empty"
  let ?d = "cluster_of 0 (memory_request 1) Map.empty"
  have h: "GetPodHostName ?c 0 = ''db-mysql-0.db-mysql''"
    "GetPodHostName ?c 2 = ''db-mysql-2.db-mysql''"
    "GetPodHostName ?d 0 = ''db-mysql-0.db-mysql''"
    by (simp_all add: eval_hosts)
  have n: "ReadyNodes (Status ?c) = 3" "ReadyNodes (Status ?d) = 0"
    "Name ?c = ''db''" "Namespace ?c = ''prod''"
    by (simp_all add: cluster_of_def)
  have o: "OrchestratorUri (options_of uri) = uri" for uri by (simp add: options_of_def)
  have d: "Master (orc_down uri) cn = Inl ''timeout''"
    "ClusterOSCReplicas (orc_down uri) cn = Inl ''timeout''" for uri cn
    by (simp_all add: orc_down_def)
  show ?thesis
    using resolver_fallback [of "options_of []" "orc_of replicas4 []" ?c]
      resolver_fallback [of "options_of []" "orc_of replicas4 []" ?d]
      resolver_fallback [of "options_of ''http://orc''" orc_down ?c "''timeout''" "''timeout''"]
    by (simp add: h n o d)
qed

text \<open>
  Claim C3, as amended. With a topology authority configured and a ready count of at
  least 1, when the replicas query succeeds, \<open>GetHealtySlaveHost\<close> returns the hostname of
  the last instance in the answer whose lag is known and at most 5 seconds, and the
  hostname of member \<open>ready - 1\<close> when no instance qualifies. With a ready count below 1
  it returns the hostname of member 0 and does not look at the answer.
\<close>

theorem GetHealtySlaveHost_last_qualifying:
  assumes "OrchestratorUri opt \<noteq> []"
    and "ClusterOSCReplicas (NewFromUri (OrchestratorUri opt)) (Name c) = Inr replicas"
  shows "GetHealtySlaveHost opt NewFromUri c =
     (if ReadyNodes (Status c) < 1 then GetPodHostName c 0
      else if filter qualifies replicas = [] then GetPodHostName c (ReadyNodes (Status c) - 1)
      else Hostname (Key (last (filter qualifies replicas))))"
  using assms by (simp add: GetHealtySlaveHost_def GetOrcUri_def Let_def replicas_loop_last)

theorem GetHealtySlaveHost_last_qualifying_witness:
  "OrchestratorUri (options_of ''http://orc'') \<noteq> []
   \<and> ClusterOSCReplicas (orc_of replicas4 [] (OrchestratorUri (options_of ''http://orc'')))
        (Name (cluster_of 3 (memory_request 1) Map.empty)) = Inr replicas4
   \<and> GetHealtySlaveHost (options_of ''http://orc'') (orc_of replicas4 [])
        (cluster_of 3 (memory_request 1) Map.empty) = ''replica-b''
   \<and> GetHealtySlaveHost (options_of ''http://orc'')
        (orc_of [instance_of ''replica-c'' 10 True, instance_of ''replica-d'' 0 False] [])
        (cluster_of 3 (memory_request 1) Map.empty) = ''db-mysql-2.db-mysql''"
proof -
  let ?c = "cluster_of 3 (memory_request 1) Map.empty"
  let ?opt = "options_of ''http://orc''"
  have o: "OrchestratorUri ?opt \<noteq> []" by (simp add: options_of_def)
  have q: "ClusterOSCReplicas (orc_of rs [] (OrchestratorUri ?opt)) (Name ?c) = Inr rs" for rs
    by (simp add: orc_of_def)
  have n: "ReadyNodes (Status ?c) = 3" by (simp add: cluster_of_def)
  have h: "GetPodHostName ?c 2 = ''db-mysql-2.db-mysql''" by (simp add: eval_hosts)
  have 1: "GetHealtySlaveHost ?opt (orc_of replicas4 []) ?c = ''replica-b''"
    using GetHealtySlaveHost_last_qualifying [of ?opt "orc_of replicas4 []" ?c replicas4] o q
    by (simp add: n filter_replicas4 instance_of_def)
  have 2: "GetHealtySlaveHost ?opt
        (orc_of [instance_of ''replica-c'' 10 True, instance_of ''replica-d'' 0 False] []) ?c =
      ''db-mysql-2.db-mysql''"
    using GetHealtySlaveHost_last_qualifying [of ?opt
        "orc_of [instance_of ''replica-c'' 10 True, instance_of ''replica-d'' 0 False] []" ?c
        "[instance_of ''replica-c'' 10 True, instance_of ''replica-d'' 0 False]"] o q
    by (simp add: n h qualifies_def instance_of_def)
  from o q [of replicas4] 1 2 show ?thesis by simp
qed

text \<open>
  The claim as stated fails when no member is ready: the authority is configured, its
  answer holds two qualifying instances, and the function returns member 0's hostname.
\<close>

theorem GetHealtySlaveHost_no_ready_counterexample:
  "OrchestratorUri (options_of ''http://orc'') \<noteq> []
   \<and> ClusterOSCReplicas (orc_of replicas4 [] (OrchestratorUri (options_of ''http://orc'')))
        (Name (cluster_of 0 (memory_request 1) Map.empty)) = Inr replicas4
   \<and> filter qualifies replicas4 \<noteq> []
   \<and> Hostname (Key (last (filter qualifies replicas4))) = ''replica-b''
   \<and> GetHealtySlaveHost (options_of ''http://orc'') (orc_of replicas4 [])
        (cluster_of 0 (memory_request 1) Map.empty) = ''db-mysql-0.db-mysql''
   \<and> GetHealtySlaveHost (options_of ''http://orc'') (orc_of replicas4 [])
        (cluster_of 0 (memory_request 1) Map.empty)
       \<noteq> Hostname (Key (last (filter qualifies replicas4)))"
  by (simp add: filter_replicas4 instance_of_def GetHealtySlaveHost_def eval_hosts
      options_of_def orc_of_def)

section \<open>Properties of the reconciliation engine\<close>

lemma sync_loop_ok:
  "units_ok us (world s) \<Longrightarrow>
   sync_loop us s =
     (None, \<lparr>events = events s @ update_events us (world s), world = run_units us (world s)\<rparr>)"
proof (induction us arbitrary: s)
  case Nil
  show ?case by simp
next
  case (Cons u us)
  obtain st w where r: "syncFn u (world s) = ((st, None), w)"
    using Cons.prems by (cases "syncFn u (world s)") auto
  let ?s' = "if st = statusCreated \<or> st = statusUpdated
             then Event_rec EventNormal (reasonUpdated u) [] (s\<lparr>world := w\<rparr>)
             else s\<lparr>world := w\<rparr>"
  have w': "world ?s' = w" by (simp add: Event_rec_def)
  from Cons.prems r have "units_ok us (world ?s')" by (simp add: w')
  then have "sync_loop us ?s' =
     (None, \<lparr>events = events ?s' @ update_events us (world ?s'), world = run_units us (world ?s')\<rparr>)"
    by (rule Cons.IH)
  moreover have "sync_loop (u # us) s = sync_loop us ?s'" using r by simp
  ultimately show ?case using r by (simp add: Event_rec_def)
qed



lemma discover_loop_fold:
  "discover_loop client MysqlPort f i n w = register_all client MysqlPort f [i..n - 1] w"
proof (induction client MysqlPort f i n w rule: discover_loop.induct)
  case (1 client MysqlPort f i n w)
  show ?case
  proof (cases "i < n")
    case True
    then have u: "[i..n - 1] = i # [i + 1..n - 1]" by (simp add: upto_rec1)
    obtain err w' where d: "Discover client (getHostForReplica f i) MysqlPort w = (err, w')"
      by (cases "Discover client (getHostForReplica f i) MysqlPort w") auto
    have "discover_loop client MysqlPort f i n w = discover_loop client MysqlPort f (i + 1) n w'"
      using True d by (subst discover_loop.simps) simp
    also have "\<dots> = register_all client MysqlPort f [i + 1..n - 1] w'"
      using True d by (intro "1.IH") auto
    finally show ?thesis using d by (simp add: u register_all_def)
  next
    case False
    then show ?thesis by (subst discover_loop.simps) (simp add: register_all_def)
  qed
qed



lemma example_hosts:
  "getHostForReplica (factory_of (cluster_of 3 (memory_request 1) Map.empty) 5) 0 = ''db-mysql-0.db-mysql.prod''"
  "getHostForReplica (factory_of (cluster_of 3 (memory_request 1) Map.empty) 5) 1 = ''db-mysql-1.db-mysql.prod''"
  "getHostForReplica (factory_of (cluster_of 3 (memory_request 1) Map.empty) 5) 2 = ''db-mysql-2.db-mysql.prod''"
  by (simp_all add: eval_hosts factory_of_def)

lemma example_units:
  "units_ok (getComponents (factory_of c 5)) []"
  "run_units (getComponents (factory_of c 5)) [] =
      [''secret'', ''config'', ''service'', ''statefulset'', ''cronjob'']"
  "update_events (getComponents (factory_of c 5)) [] =
         [\<lparr>eventtype = EventNormal, reason = EventReasonDbSecretUpdated, message = []\<rparr>,
          \<lparr>eventtype = EventNormal, reason = EventReasonConfigMapUpdated, message = []\<rparr>,
          \<lparr>eventtype = EventNormal, reason = EventReasonServiceUpdated, message = []\<rparr>,
          \<lparr>eventtype = EventNormal, reason = EventReasonSFSUpdated, message = []\<rparr>,
          \<lparr>eventtype = EventNormal, reason = EventReasonCronJobUpdated, message = []\<rparr>]"
  by (simp_all add: getComponents_def factory_of_def unit_of_def)

lemma example_register_all:
  "register_all (orc_of rs bad ''http://orc'') 3306
       (factory_of (cluster_of 3 (memory_request 1) Map.empty) 5) [0..2]
       [''secret'', ''config'', ''service'', ''statefulset'', ''cronjob''] =
      [''secret'', ''config'', ''service'', ''statefulset'', ''cronjob'',
       ''discover db-mysql-0.db-mysql.prod'', ''discover db-mysql-1.db-mysql.prod'',
       ''discover db-mysql-2.db-mysql.prod'']"
proof -
  have u: "[0..2] = [0, 1, 2::int]" by (simp add: upto_rec1)
  show ?thesis by (simp add: u register_all_def example_hosts orc_of_def)
qed



text \<open>
  Claim C6. When all five units succeed and a topology authority is configured, \<open>Sync\<close>
  calls \<open>Discover\<close> for each member \<open>0, ..., ready - 1\<close> in turn, each call made
  whatever the calls before it returned, and returns nil.
\<close>

theorem Sync_registration_best_effort:
  assumes "units_ok (getComponents f) (world s)"
    and "OrchestratorUri opt \<noteq> []"
  shows "Sync opt NewFromUri MysqlPort f s =
     (None,
      \<lparr>events = events s @ update_events (getComponents f) (world s),
       world = register_all (NewFromUri (OrchestratorUri opt)) MysqlPort f
                 [0..ReadyNodes (Status (cluster f)) - 1]
                 (run_units (getComponents f) (world s))\<rparr>)"
proof -
  from assms(1) have "sync_loop (getComponents f) s =
     (None, \<lparr>events = events s @ update_events (getComponents f) (world s),
             world = run_units (getComponents f) (world s)\<rparr>)"
    by (rule sync_loop_ok)
  then show ?thesis
    using assms(2) by (simp add: Sync_def Let_def GetOrcUri_def discover_loop_fold)
qed

theorem Sync_registration_best_effort_witness:
  "fst (Discover (orc_of [] ''db-mysql-1.db-mysql.prod'' ''http://orc'')
          ''db-mysql-1.db-mysql.prod'' 3306 []) = Some ''connection refused''
   \<and> Sync (options_of ''http://orc'') (orc_of [] ''db-mysql-1.db-mysql.prod'') 3306
      (factory_of (cluster_of 3 (memory_request 1) Map.empty) 5) \<lparr>events = [], world = []\<rparr> =
     (None,
      \<lparr>events =
         [\<lparr>eventtype = EventNormal, reason = EventReasonDbSecretUpdated, message = []\<rparr>,
          \<lparr>eventtype = EventNormal, reason = EventReasonConfigMapUpdated, message = []\<rparr>,
          \<lparr>eventtype = EventNormal, reason = EventReasonServiceUpdated, message = []\<rparr>,
          \<lparr>eventtype = EventNormal, reason = EventReasonSFSUpdated, message = []\<rparr>,
          \<lparr>eventtype = EventNormal, reason = EventReasonCronJobUpdated, message = []\<rparr>],
       world = [''secret'', ''config'', ''service'', ''statefulset'', ''cronjob'',
                ''discover db-mysql-0.db-mysql.prod'', ''discover db-mysql-1.db-mysql.prod'',
                ''discover db-mysql-2.db-mysql.prod'']\<rparr>)"
proof -
  let ?f = "factory_of (cluster_of 3 (memory_request 1) Map.empty) 5"
  let ?s = "\<lparr>events = [], world = []\<rparr> :: string list state"
  have r: "ReadyNodes (Status (cluster ?f)) = 3"
    by (simp add: factory_of_def cluster_of_def)
  have o: "OrchestratorUri (options_of ''http://orc'') = ''http://orc''"
    by (simp add: options_of_def)
  have 1: "fst (Discover (orc_of [] ''db-mysql-1.db-mysql.prod'' ''http://orc'')
          ''db-mysql-1.db-mysql.prod'' 3306 []) = Some ''connection refused''"
    by (simp add: orc_of_def)
  show ?thesis
    using Sync_registration_best_effort [of ?f ?s "options_of ''http://orc''"
        "orc_of [] ''db-mysql-1.db-mysql.prod''" 3306]
    by (simp add: r o 1 example_units example_register_all)
qed

text \<open>
  Claim C4, as amended. Whether a topology authority is configured is decided by the
  orchestrator URI of the process-wide options, the same for every cluster definition:
  \<open>GetOrcUri\<close> returns it whatever the definition holds. When it is empty, both resolver
  functions return their static defaults and \<open>Sync\<close> registers no member. When it is
  not empty, \<open>GetMasterHost\<close> queries the authority, \<open>GetHealtySlaveHost\<close> queries it if
  the ready count is at least 1, and \<open>Sync\<close> registers the ready members after the units
  have succeeded.
\<close>

theorem GetOrcUri_from_options:
  "GetOrcUri opt spec = OrchestratorUri opt \<and>
   (OrchestratorUri opt = [] \<longrightarrow>
      GetMasterHost opt NewFromUri c = GetPodHostName c 0 \<and>
      GetHealtySlaveHost opt NewFromUri c =
        (if ReadyNodes (Status c) < 1 then GetPodHostName c 0
         else GetPodHostName c (ReadyNodes (Status c) - 1)) \<and>
      (units_ok (getComponents f) (world s) \<longrightarrow>
         world (snd (Sync opt NewFromUri MysqlPort f s)) = run_units (getComponents f) (world s))) \<and>
   (OrchestratorUri opt \<noteq> [] \<longrightarrow>
      GetMasterHost opt NewFromUri c =
        (case Master (NewFromUri (OrchestratorUri opt)) (Name c @ ''.'' @ Namespace c) of
           Inr inst \<Rightarrow> Hostname (Key inst)
         | Inl err \<Rightarrow> GetPodHostName c 0) \<and>
      (1 \<le> ReadyNodes (Status c) \<longrightarrow>
         GetHealtySlaveHost opt NewFromUri c =
           (case ClusterOSCReplicas (NewFromUri (OrchestratorUri opt)) (Name c) of
              Inl err \<Rightarrow> GetPodHostName c (ReadyNodes (Status c) - 1)
            | Inr replicas \<Rightarrow>
                if filter qualifies replicas = [] then GetPodHostName c (ReadyNodes (Status c) - 1)
                else Hostname (Key (last (filter qualifies replicas))))) \<and>
      (units_ok (getComponents f) (world s) \<longrightarrow>
         world (snd (Sync opt NewFromUri MysqlPort f s)) =
           register_all (NewFromUri (OrchestratorUri opt)) MysqlPort f
             [0..ReadyNodes (Status (cluster f)) - 1] (run_units (getComponents f) (world s))))"
proof (intro conjI impI)
  show "GetOrcUri opt spec = OrchestratorUri opt" by (simp add: GetOrcUri_def)
next
  assume "OrchestratorUri opt = []"
  then show "GetMasterHost opt NewFromUri c = GetPodHostName c 0"
    by (simp add: GetMasterHost_def GetOrcUri_def)
next
  assume "OrchestratorUri opt = []"
  then show "GetHealtySlaveHost opt NewFromUri c =
        (if ReadyNodes (Status c) < 1 then GetPodHostName c 0
         else GetPodHostName c (ReadyNodes (Status c) - 1))"
    by (simp add: GetHealtySlaveHost_def GetOrcUri_def)
next
  assume "OrchestratorUri opt = []" and "units_ok (getComponents f) (world s)"
  then show "world (snd (Sync opt NewFromUri MysqlPort f s)) = run_units (getComponents f) (world s)"
    by (simp add: Sync_def GetOrcUri_def sync_loop_ok)
next
  assume "OrchestratorUri opt \<noteq> []"
  then show "GetMasterHost opt NewFromUri c =
        (case Master (NewFromUri (OrchestratorUri opt)) (Name c @ ''.'' @ Namespace c) of
           Inr inst \<Rightarrow> Hostname (Key inst)
         | Inl err \<Rightarrow> GetPodHostName c 0)"
    by (simp add: GetMasterHost_def GetOrcUri_def Let_def split: sum.splits)
next
  assume "OrchestratorUri opt \<noteq> []" and "1 \<le> ReadyNodes (Status c)"
  then show "GetHealtySlaveHost opt NewFromUri c =
           (case ClusterOSCReplicas (NewFromUri (OrchestratorUri opt)) (Name c) of
              Inl err \<Rightarrow> GetPodHostName c (ReadyNodes (Status c) - 1)
            | Inr replicas \<Rightarrow>
                if filter qualifies replicas = [] then GetPodHostName c (ReadyNodes (Status c) - 1)
                else Hostname (Key (last (filter qualifies replicas))))"
    by (simp add: GetHealtySlaveHost_def GetOrcUri_def Let_def replicas_loop_last split: sum.splits)
next
  assume "OrchestratorUri opt \<noteq> []" and "units_ok (getComponents f) (world s)"
  then show "world (snd (Sync opt NewFromUri MysqlPort f s)) =
           register_all (NewFromUri (OrchestratorUri opt)) MysqlPort f
             [0..ReadyNodes (Status (cluster f)) - 1] (run_units (getComponents f) (world s))"
    by (simp add: Sync_def GetOrcUri_def sync_loop_ok Let_def discover_loop_fold)
qed

theorem GetOrcUri_from_options_witness:
  "GetMasterHost (options_of []) (orc_of replicas4 []) (cluster_of 3 (memory_request 1) Map.empty)
     = ''db-mysql-0.db-mysql''
   \<and> GetHealtySlaveHost (options_of []) (orc_of replicas4 []) (cluster_of 3 (memory_request 1) Map.empty)
     = ''db-mysql-2.db-mysql''
   \<and> world (snd (Sync (options_of []) (orc_of replicas4 []) 3306
        (factory_of (cluster_of 3 (memory_request 1) Map.empty) 5) \<lparr>events = [], world = []\<rparr>))
     = [''secret'', ''config'', ''service'', ''statefulset'', ''cronjob'']
   \<and> GetMasterHost (options_of ''http://orc'') (orc_of replicas4 [])
        (cluster_of 3 (memory_request 1) Map.empty) = ''primary.example''
   \<and> GetHealtySlaveHost (options_of ''http://orc'') (orc_of replicas4 [])
        (cluster_of 3 (memory_request 1) Map.empty) = ''replica-b''
   \<and> world (snd (Sync (options_of ''http://orc'') (orc_of replicas4 []) 3306
        (factory_of (cluster_of 3 (memory_request 1) Map.empty) 5) \<lparr>events = [], world = []\<rparr>))
     = [''secret'', ''config'', ''service'', ''statefulset'', ''cronjob'',
        ''discover db-mysql-0.db-mysql.prod'', ''discover db-mysql-1.db-mysql.prod'',
        ''discover db-mysql-2.db-mysql.prod'']"
proof -
  let ?c = "cluster_of 3 (memory_request 1) Map.empty"
  let ?f = "factory_of ?c 5"
  let ?s = "\<lparr>events = [], world = []\<rparr> :: string list state"
  have h: "GetPodHostName ?c 0 = ''db-mysql-0.db-mysql''"
    "GetPodHostName ?c 2 = ''db-mysql-2.db-mysql''"
    by (simp_all add: eval_hosts)
  have n: "ReadyNodes (Status ?c) = 3" "ReadyNodes (Status (cluster ?f)) = 3"
    by (simp_all add: cluster_of_def factory_of_def)
  have o: "OrchestratorUri (options_of uri) = uri" for uri by (simp add: options_of_def)
  have q: "Master (orc_of replicas4 [] uri) cn = Inr (instance_of ''primary.example'' 0 True)"
    "ClusterOSCReplicas (orc_of replicas4 [] uri) cn = Inr replicas4" for uri cn
    by (simp_all add: orc_of_def)
  have i: "Hostname (Key (instance_of x l k)) = x" for x l k by (simp add: instance_of_def)
  show ?thesis
    using GetOrcUri_from_options [of "options_of []" "Spec ?c" "orc_of replicas4 []" ?c ?f ?s 3306]
      GetOrcUri_from_options [of "options_of ''http://orc''" "Spec ?c" "orc_of replicas4 []" ?c ?f ?s 3306]
    by (simp add: o h n q i filter_replicas4 example_units example_register_all)
qed

text \<open>
  The claim as stated fails: for one and the same cluster definition the primary is
  resolved statically under one option set and by the authority under another.
\<close>

theorem GetOrcUri_counterexample:
  "GetOrcUri (options_of []) (Spec (cluster_of 3 (memory_request 1) Map.empty)) = []
   \<and> GetOrcUri (options_of ''http://orc'') (Spec (cluster_of 3 (memory_request 1) Map.empty))
       = ''http://orc''
   \<and> GetMasterHost (options_of []) (orc_of replicas4 []) (cluster_of 3 (memory_request 1) Map.empty)
       = ''db-mysql-0.db-mysql''
   \<and> GetMasterHost (options_of ''http://orc'') (orc_of replicas4 [])
        (cluster_of 3 (memory_request 1) Map.empty) = ''primary.example''
   \<and> GetMasterHost (options_of []) (orc_of replicas4 []) (cluster_of 3 (memory_request 1) Map.empty)
       \<noteq> GetMasterHost (options_of ''http://orc'') (orc_of replicas4 [])
            (cluster_of 3 (memory_request 1) Map.empty)"
  by (simp add: GetOrcUri_def GetMasterHost_def options_of_def orc_of_def instance_of_def eval_hosts)

end
